theory Spec2Isabelle
  imports Main "HOL-Library.Char_ord" "HOL-Library.List_Lexorder"
begin

section \<open>Go string primitives used by rbac.go\<close>

text \<open>
  A Go string is a sequence of bytes; \<^typ>\<open>string\<close> is a list of 8-bit characters.
  The functions below are the parts of package \<^verbatim>\<open>strings\<close> that rbac.go calls,
  written for the arguments it passes (one-byte separators, non-empty needles).
\<close>

text \<open>\<^verbatim>\<open>strings.Split(s, sep)\<close> for a one-byte separator: the result has one more
  element than \<open>s\<close> has separators, so it is never empty.\<close>

fun Split :: "string \<Rightarrow> char \<Rightarrow> string list" where
  "Split [] sep = [[]]"
| "Split (c # cs) sep =
     (if c = sep then [] # Split cs sep
      else (case Split cs sep of
              [] \<Rightarrow> [[c]]
            | tok # toks \<Rightarrow> (c # tok) # toks))"

text \<open>\<^verbatim>\<open>strings.HasPrefix\<close>, and \<^verbatim>\<open>strings.Index(s, sub)\<close>: the position of the
  first occurrence of \<open>sub\<close> in \<open>s\<close>, \<open>None\<close> where Go returns \<open>-1\<close>.\<close>

fun HasPrefix :: "string \<Rightarrow> string \<Rightarrow> bool" where
  "HasPrefix s [] = True"
| "HasPrefix [] (p # ps) = False"
| "HasPrefix (c # cs) (p # ps) = (c = p \<and> HasPrefix cs ps)"

fun Index :: "string \<Rightarrow> string \<Rightarrow> nat option" where
  "Index [] sub = (if sub = [] then Some 0 else None)"
| "Index (c # cs) sub =
     (if HasPrefix (c # cs) sub then Some 0
      else map_option Suc (Index cs sub))"

text \<open>\<^verbatim>\<open>strings.LastIndex(s, sub)\<close>: the position of the last occurrence.\<close>

fun LastIndex :: "string \<Rightarrow> string \<Rightarrow> nat option" where
  "LastIndex [] sub = (if sub = [] then Some 0 else None)"
| "LastIndex (c # cs) sub =
     (case LastIndex cs sub of
        Some i \<Rightarrow> Some (Suc i)
      | None \<Rightarrow> (if HasPrefix (c # cs) sub then Some 0 else None))"

text \<open>\<^verbatim>\<open>strings.Replace(s, old, new, 1)\<close> for a non-empty \<open>old\<close>: the first
  occurrence is replaced, and \<open>s\<close> is returned as it is when there is none.\<close>

definition Replace1 :: "string \<Rightarrow> string \<Rightarrow> string \<Rightarrow> string" where
  "Replace1 s old new =
     (case Index s old of
        None \<Rightarrow> s
      | Some i \<Rightarrow> take i s @ new @ drop (i + length old) s)"

definition TrimSuffix :: "string \<Rightarrow> string \<Rightarrow> string" where
  "TrimSuffix s suffix =
     (if HasPrefix (rev s) (rev suffix) then take (length s - length suffix) s else s)"

definition TrimPrefix :: "string \<Rightarrow> string \<Rightarrow> string" where
  "TrimPrefix s prefix = (if HasPrefix s prefix then drop (length prefix) s else s)"

text \<open>\<^verbatim>\<open>strings.EqualFold\<close> compares under Unicode simple case folding. rbac.go
  calls it with the constants \<^verbatim>\<open>"deny"\<close> and \<^verbatim>\<open>"allow"\<close> only; none of their
  letters has a fold partner outside ASCII (only \<open>k\<close> and \<open>s\<close> have one), so for
  these constants it is equality after lowering the ASCII capitals of each byte.\<close>

definition toLower :: "char \<Rightarrow> char" where
  "toLower c =
     (let n = (of_char c :: nat)
      in if 65 \<le> n \<and> n \<le> 90 then char_of (n + 32) else c)"

definition EqualFold :: "string \<Rightarrow> string \<Rightarrow> bool" where
  "EqualFold s t = (map toLower s = map toLower t)"

section \<open>Helpers of the imported package kubevela/pkg/utils\<close>

text \<open>Modelled from the spec: \<^verbatim>\<open>utils.StringsContain\<close> belongs to the imported
  package \<^verbatim>\<open>github.com/oam-dev/kubevela/pkg/utils\<close>, which is not part of the
  sources at hand. The spec reads it as "the action set literally contains" the
  string.\<close>

definition StringsContain :: "string list \<Rightarrow> string \<Rightarrow> bool" where
  "StringsContain items source = (source \<in> set items)"

text \<open>Modelled from the spec: \<^verbatim>\<open>utils.SliceIncludeSlice\<close> belongs to the same
  imported package. The spec reads \<^verbatim>\<open>SliceIncludeSlice(a, b)\<close> as "\<open>a\<close> is a
  superset of \<open>b\<close>": every element of \<open>b\<close> occurs in \<open>a\<close>.\<close>

definition SliceIncludeSlice :: "string list \<Rightarrow> string list \<Rightarrow> bool" where
  "SliceIncludeSlice a b = list_all (\<lambda>item. StringsContain a item) b"

text \<open>Modelled from the spec: \<^verbatim>\<open>utils.EqualSlice\<close> belongs to the same imported
  package. The spec reads it as "the two slices are equal" (they "differ"
  otherwise); the helper sorts both slices with \<^verbatim>\<open>sort.Strings\<close> (byte-wise
  lexicographic order) and compares the results, so the order of the elements is
  ignored and their multiplicity is not.\<close>

definition EqualSlice :: "string list \<Rightarrow> string list \<Rightarrow> bool" where
  "EqualSlice a b = (sort a = sort b)"

section \<open>ResourceName: the chain of \<open>type:value\<close> segments\<close>

text \<open>
  \<^verbatim>\<open>type ResourceName struct { Type string; Value string; Next *ResourceName }\<close>
  is used through pointers only. A value of the datatype is a \<^verbatim>\<open>*ResourceName\<close>:
  either the nil pointer or a node with its three fields.
\<close>

datatype ResourceName =
    nil
  | ResourceName (Type: string) (Value: string) (Next: ResourceName)

text \<open>The body of the loop of \<^verbatim>\<open>ParseResourceName\<close>: the fields that one token
  \<open>rn\<close> assigns to the current node. A token with two or more colons assigns
  nothing, so both fields keep the zero value \<^verbatim>\<open>""\<close>.\<close>

definition tokenType :: "string \<Rightarrow> string" where
  "tokenType rn =
     (let rnData = Split rn (CHR '':'')
      in if length rnData = 2 then rnData ! 0
         else if length rnData = 1 then rnData ! 0
         else [])"

definition tokenValue :: "string \<Rightarrow> string" where
  "tokenValue rn =
     (let rnData = Split rn (CHR '':'')
      in if length rnData = 2 then rnData ! 1
         else if length rnData = 1 then ''*''
         else [])"

text \<open>The loop itself: one node per token, each linked to a fresh node; the node
  after the last token stays empty, with a nil \<open>Next\<close>.\<close>

fun parseTokens :: "string list \<Rightarrow> ResourceName" where
  "parseTokens [] = ResourceName [] [] nil"
| "parseTokens (rn # RNs) =
     ResourceName (tokenType rn) (tokenValue rn) (parseTokens RNs)"

definition ParseResourceName :: "string \<Rightarrow> ResourceName" where
  "ParseResourceName resource = parseTokens (Split resource (CHR ''/''))"

text \<open>\<^verbatim>\<open>func (r *ResourceName) Match(target *ResourceName) bool\<close>. The check made
  after the loop is \<open>targetDone\<close>.\<close>

fun targetDone :: "ResourceName \<Rightarrow> bool" where
  "targetDone nil = True"
| "targetDone (ResourceName ty v nx) = (ty = [])"

fun Match :: "ResourceName \<Rightarrow> ResourceName \<Rightarrow> bool" where
  "Match nil currentTarget = targetDone currentTarget"
| "Match (ResourceName ty v nx) currentTarget =
     (if ty = [] then targetDone currentTarget
      else if ty = ''*'' then True
      else (case currentTarget of
              nil \<Rightarrow> False
            | ResourceName tty tv tnx \<Rightarrow>
                if tty = [] then False
                else if ty \<noteq> tty then False
                else if v \<noteq> tv \<and> v \<noteq> ''*'' then False
                else Match nx tnx))"

text \<open>\<^verbatim>\<open>func (r *ResourceName) String() string\<close>: the builder's content, then
  one trailing \<^verbatim>\<open>"/"\<close> trimmed.\<close>

fun writeSegments :: "ResourceName \<Rightarrow> string" where
  "writeSegments nil = []"
| "writeSegments (ResourceName ty v nx) =
     (if ty = [] then [] else ty @ '':'' @ v @ ''/'' @ writeSegments nx)"

definition String :: "ResourceName \<Rightarrow> string" where
  "String r = TrimSuffix (writeSegments r) ''/''"

section \<open>RequestResourceAction and the policy evaluator\<close>

text \<open>\<^verbatim>\<open>model.Permission\<close>, with the fields rbac.go reads and writes.\<close>

record Permission =
  Name :: string
  Alias :: string
  Project :: string
  Resources :: "string list"
  Actions :: "string list"
  Effect :: string

record RequestResourceAction =
  resource :: ResourceName
  actions :: "string list"

text \<open>\<^verbatim>\<open>func (r *RequestResourceAction) match(policy *model.Permission) bool\<close>.
  The loop over the policy's resources is \<open>matchResources\<close>.\<close>

fun matchResources :: "ResourceName \<Rightarrow> string list \<Rightarrow> bool" where
  "matchResources target [] = False"
| "matchResources target (res # rest) =
     (if Match (ParseResourceName res) target then True
      else matchResources target rest)"

definition match :: "RequestResourceAction \<Rightarrow> Permission \<Rightarrow> bool" where
  "match r policy =
     (if \<not> SliceIncludeSlice (Actions policy) (actions r)
         \<and> \<not> StringsContain (Actions policy) ''*''
      then False
      else matchResources (resource r) (Resources policy))"

text \<open>\<^verbatim>\<open>func (r *RequestResourceAction) Match(policies []*model.Permission) bool\<close>:
  the first loop returns false at a matching Deny policy, the second returns true
  at a matching Allow policy (or one with no effect), and false is returned when
  both loops end.\<close>

fun denyMatches :: "RequestResourceAction \<Rightarrow> Permission list \<Rightarrow> bool" where
  "denyMatches r [] = False"
| "denyMatches r (policy # policies) =
     (if EqualFold (Effect policy) ''deny'' \<and> match r policy then True
      else denyMatches r policies)"

fun allowMatches :: "RequestResourceAction \<Rightarrow> Permission list \<Rightarrow> bool" where
  "allowMatches r [] = False"
| "allowMatches r (policy # policies) =
     (if (EqualFold (Effect policy) ''allow'' \<or> Effect policy = []) \<and> match r policy
      then True
      else allowMatches r policies)"

definition MatchPolicies :: "RequestResourceAction \<Rightarrow> Permission list \<Rightarrow> bool" where
  "MatchPolicies r policies =
     (if denyMatches r policies then False
      else if allowMatches r policies then True
      else False)"

section \<open>The pairs of a chain\<close>

text \<open>
  The round-trip property compares chains by "the same ordered sequence of
  (type, value) pairs, ignoring the trailing empty sentinel segment". \<open>pairs\<close>
  follows these words: it lists the type and the value of every node of the
  chain in order, except that a last node with an empty type, the sentinel, is
  left out.
\<close>

fun pairs :: "ResourceName \<Rightarrow> (string \<times> string) list" where
  "pairs nil = []"
| "pairs (ResourceName ty v nil) = (if ty = [] then [] else [(ty, v)])"
| "pairs (ResourceName ty v (ResourceName nty nv nx)) =
     (ty, v) # pairs (ResourceName nty nv nx)"

text \<open>The nodes that the loop of \<open>String\<close> visits: it stops at the nil pointer and
  at the first node with an empty type, wherever that node stands.\<close>

fun segments :: "ResourceName \<Rightarrow> (string \<times> string) list" where
  "segments nil = []"
| "segments (ResourceName ty v nx) = (if ty = [] then [] else (ty, v) # segments nx)"

text \<open>A string that holds neither of the two separators of the format.\<close>

definition separatorFree :: "string \<Rightarrow> bool" where
  "separatorFree s = (CHR ''/'' \<notin> set s \<and> CHR '':'' \<notin> set s)"

text \<open>Auxiliary functions of the round-trip proof: what the builder of \<open>String\<close>
  holds for a list of segments, the same without the last \<open>/\<close>, and the segment
  lists for which parsing undoes it.\<close>

fun render :: "(string \<times> string) list \<Rightarrow> string" where
  "render [] = []"
| "render ((ty, v) # segs) = ty @ '':'' @ v @ ''/'' @ render segs"

fun joined :: "(string \<times> string) list \<Rightarrow> string" where
  "joined [] = []"
| "joined [(ty, v)] = ty @ '':'' @ v"
| "joined ((ty, v) # seg # segs) = ty @ '':'' @ v @ ''/'' @ joined (seg # segs)"

definition wellFormed :: "(string \<times> string) list \<Rightarrow> bool" where
  "wellFormed segs = (\<forall>(ty, v) \<in> set segs. ty \<noteq> [] \<and> separatorFree ty \<and> separatorFree v)"

section \<open>The resource schema and the path resolver\<close>

text \<open>
  \<^verbatim>\<open>type resourceMetadata struct { subResources map[string]resourceMetadata; pathName string }\<close>.
  A Go map is written as an association list with distinct keys, in the order of
  the map literal; where the code ranges over a map, the order is Go's choice,
  and the sequence of entries is a parameter of the model.
\<close>

datatype resourceMetadata =
  resourceMetadata (subResources: "(string \<times> resourceMetadata) list") (pathName: string)

text \<open>The assignment \<^verbatim>\<open>list[k] = v\<close> to a map.\<close>

fun mapPut :: "(string \<times> 'v) list \<Rightarrow> string \<Rightarrow> 'v \<Rightarrow> (string \<times> 'v) list" where
  "mapPut [] k v = [(k, v)]"
| "mapPut ((k', v') # m) k v = (if k' = k then (k, v) # m else (k', v') # mapPut m k v)"

text \<open>\<^verbatim>\<open>convertSources\<close>: \<open>putSubPaths\<close> is the inner loop over the paths of the
  sub-resources of \<open>k\<close>, \<open>convertInto\<close> the outer loop over \<open>sources\<close> with
  the map \<open>list\<close> built so far. Every key begins with \<open>/k\<close> followed by
  \<open>/\<close>, and a resource name holds no \<open>/\<close>, so the rounds for different
  \<open>k\<close> assign different keys and the map built does not depend on the order of
  the rounds.\<close>

fun putSubPaths ::
  "string \<Rightarrow> string \<Rightarrow> (string \<times> string) list \<Rightarrow> (string \<times> string) list
   \<Rightarrow> (string \<times> string) list" where
  "putSubPaths k pn list [] = list"
| "putSubPaths k pn list ((sub, subWithPathName) # subs) =
     putSubPaths k pn
       (if subWithPathName \<noteq> []
        then mapPut list (''/'' @ k @ sub)
               (if pn \<noteq> [] then ''/'' @ k @ '':{'' @ pn @ ''}'' @ subWithPathName
                else ''/'' @ k @ '':*'' @ subWithPathName)
        else list)
       subs"

fun convertInto ::
  "(string \<times> string) list \<Rightarrow> (string \<times> resourceMetadata) list \<Rightarrow> (string \<times> string) list" where
  "convertInto list [] = list"
| "convertInto list ((k, resourceMetadata subs pn) # sources) =
     convertInto
       (mapPut
          (if length subs > 0 then putSubPaths k pn list (convertInto [] subs) else list)
          (''/'' @ k @ ''/'')
          (if pn \<noteq> [] then ''/'' @ k @ '':{'' @ pn @ ''}/'' else ''/'' @ k @ '':*/''))
       sources"

definition convertSources :: "(string \<times> resourceMetadata) list \<Rightarrow> (string \<times> string) list" where
  "convertSources sources = convertInto [] sources"

text \<open>\<^verbatim>\<open>var ResourceMaps\<close>, the registered schema.\<close>

definition ResourceMaps :: "(string \<times> resourceMetadata) list" where
  "ResourceMaps =
  [(''project'', resourceMetadata
     [(''application'', resourceMetadata
        [(''component'', resourceMetadata
            [(''trait'', resourceMetadata [] ''traitType'')] ''compName''),
         (''workflow'', resourceMetadata
            [(''record'', resourceMetadata [] ''record'')] ''workflowName''),
         (''policy'', resourceMetadata [] ''policyName''),
         (''revision'', resourceMetadata [] ''revision''),
         (''envBinding'', resourceMetadata [] ''envName''),
         (''trigger'', resourceMetadata [] [])]
        ''appName''),
      (''environment'', resourceMetadata [] ''envName''),
      (''workflow'', resourceMetadata [] ''workflowName''),
      (''role'', resourceMetadata [] ''roleName''),
      (''permission'', resourceMetadata [] []),
      (''projectUser'', resourceMetadata [] ''userName''),
      (''applicationTemplate'', resourceMetadata [] []),
      (''config'', resourceMetadata [] ''configName''),
      (''provider'', resourceMetadata [] []),
      (''pipeline'', resourceMetadata
        [(''context'', resourceMetadata [] ''contextName''),
         (''pipelineRun'', resourceMetadata [] ''pipelineRunName'')]
        ''pipelineName'')]
     ''projectName''),
   (''cluster'', resourceMetadata
     [(''namespace'', resourceMetadata [] [])] ''clusterName''),
   (''addon'', resourceMetadata [] ''addonName''),
   (''addonRegistry'', resourceMetadata [] ''addonRegName''),
   (''target'', resourceMetadata [] ''targetName''),
   (''user'', resourceMetadata [] ''userName''),
   (''role'', resourceMetadata [] []),
   (''permission'', resourceMetadata [] ''permissionName''),
   (''systemSetting'', resourceMetadata [] []),
   (''definition'', resourceMetadata [] ''definitionName''),
   (''configType'', resourceMetadata
     [(''config'', resourceMetadata [] ''name'')] ''configType''),
   (''cloudshell'', resourceMetadata [] []),
   (''config'', resourceMetadata [] []),
   (''configTemplate'', resourceMetadata [] [])]"

definition existResourcePaths :: "(string \<times> string) list" where
  "existResourcePaths = convertSources ResourceMaps"

text \<open>The two errors of \<^verbatim>\<open>checkResourcePath\<close>:
  \<^verbatim>\<open>"the resource name %s is not unique"\<close> and \<^verbatim>\<open>"there is no resource %s"\<close>.\<close>

datatype error = NotUnique string | NoResource string

text \<open>\<^verbatim>\<open>resource[strings.LastIndex(resource, "/")+1:]\<close>.\<close>

definition lastResourceName :: "string \<Rightarrow> string" where
  "lastResourceName res =
     (case LastIndex res ''/'' of
        None \<Rightarrow> res
      | Some i \<Rightarrow> drop (i + 1) res)"

text \<open>One round of the loop of \<^verbatim>\<open>checkResourcePath\<close> over the entry
  \<open>(key, erp)\<close>: the value of \<open>pre\<close> when both indexes are found, \<open>None\<close>
  when the entry is passed over.\<close>

definition matchedPrefix :: "string \<Rightarrow> string \<times> string \<Rightarrow> string option" where
  "matchedPrefix res entry =
     (case entry of (key, erp) \<Rightarrow>
        (case (Index erp (''/'' @ lastResourceName res @ '':''),
               Index key (''/'' @ res @ ''/'')) of
           (Some index, Some allMatchIndex) \<Rightarrow>
             (let pre = take (index + length (lastResourceName res) + 2) erp;
                  next = Replace1 erp pre []
              in case Index next ''/'' of
                   Some nameIndex \<Rightarrow> Some (pre @ take nameIndex next)
                 | None \<Rightarrow> Some pre)
         | _ \<Rightarrow> None))"

text \<open>The loop, with its variables \<open>path\<close> and \<open>exist\<close>.\<close>

fun scanPaths :: "string \<Rightarrow> string \<times> nat \<Rightarrow> (string \<times> string) list \<Rightarrow> string \<times> nat" where
  "scanPaths res (path, exist) [] = (path, exist)"
| "scanPaths res (path, exist) (entry # entries) =
     (case matchedPrefix res entry of
        Some pre \<Rightarrow>
          scanPaths res (pre, if pre \<noteq> path then exist + 1 else exist) entries
      | None \<Rightarrow> scanPaths res (path, exist) entries)"

text \<open>\<^verbatim>\<open>checkResourcePath\<close>. Go returns the pair \<open>(path, err)\<close> in every case.
  \<open>paths\<close> is the sequence in which \<^verbatim>\<open>range existResourcePaths\<close> yields the
  entries of the map.\<close>

definition checkResourcePath :: "(string \<times> string) list \<Rightarrow> string \<Rightarrow> string \<times> error option" where
  "checkResourcePath paths res =
     (case map_of ResourceMaps res of
        Some sub \<Rightarrow>
          (if pathName sub \<noteq> [] then (res @ '':{'' @ pathName sub @ ''}'', None)
           else (res @ '':*'', None))
      | None \<Rightarrow>
          (case scanPaths res ([], 0) paths of
             (path0, exist) \<Rightarrow>
               (let path = TrimPrefix (TrimSuffix path0 ''/'') ''/''
                in if exist = 1 then (path, None)
                   else if exist > 1 then (path, Some (NotUnique res))
                   else (path, Some (NoResource res)))))"

text \<open>The prefixes that the loop computes for a resource name, in the order of
  the entries.\<close>

definition matchingPrefixes :: "string \<Rightarrow> (string \<times> string) list \<Rightarrow> string list" where
  "matchingPrefixes res paths = List.map_filter (matchedPrefix res) paths"

section \<open>Instantiating a template\<close>

text \<open>
  \<^verbatim>\<open>reg.FindAllString(resource, -1)\<close> for \<^verbatim>\<open>reg = regexp.MustCompile(`(?U)\{.*\}`)\<close>:
  the successive leftmost matches of an opening brace, the shortest run of
  characters other than newline, and a closing brace. \<open>findAll\<close> reads the string
  once; its first argument is the match begun at the leftmost open brace not yet
  closed, which a closing brace completes and a newline discards (no match
  crosses a newline, so no brace before it can begin one that ends after it).
\<close>

fun findAll :: "string option \<Rightarrow> string \<Rightarrow> string list" where
  "findAll open [] = []"
| "findAll None (c # cs) =
     (if c = CHR ''{'' then findAll (Some [c]) cs else findAll None cs)"
| "findAll (Some m) (c # cs) =
     (if c = CHR ''}'' then (m @ [c]) # findAll None cs
      else if c = CHR 0x0A then findAll None cs
      else findAll (Some (m @ [c])) cs)"

definition FindAllString :: "string \<Rightarrow> string list" where
  "FindAllString s = findAll None s"

text \<open>\<^verbatim>\<open>SetResourceWithName\<close>: the loop over the placeholders, then the parse.\<close>

fun substitute :: "(string \<Rightarrow> string) \<Rightarrow> string \<Rightarrow> string list \<Rightarrow> string" where
  "substitute pathParameter res [] = res"
| "substitute pathParameter res (sourcekey # resultKey) =
     (let key = take (length sourcekey - 1 - 1) (drop 1 sourcekey);
          value = pathParameter key
      in substitute pathParameter
           (Replace1 res sourcekey (if value = [] then ''*'' else value))
           resultKey)"

definition SetResourceWithName ::
  "RequestResourceAction \<Rightarrow> string \<Rightarrow> (string \<Rightarrow> string) \<Rightarrow> RequestResourceAction" where
  "SetResourceWithName r res pathParameter =
     r\<lparr>resource := ParseResourceName (substitute pathParameter res (FindAllString res))\<rparr>"

section \<open>The store and the entities of the RBAC service\<close>

text \<open>\<^verbatim>\<open>model.User\<close>, \<^verbatim>\<open>model.Role\<close>, \<^verbatim>\<open>model.ProjectUser\<close>,
  \<^verbatim>\<open>model.Project\<close> and \<^verbatim>\<open>model.PermissionTemplate\<close>, with the fields that
  rbac.go reads and writes.\<close>

record User =
  User_Name :: string
  User_UserRoles :: "string list"

record Role =
  Role_Name :: string
  Role_Alias :: string
  Role_Project :: string
  Role_Permissions :: "string list"

record ProjectUser =
  ProjectUser_Username :: string
  ProjectUser_ProjectName :: string
  ProjectUser_UserRoles :: "string list"

record model_Project =
  Project_Name :: string
  Project_Owner :: string

record PermissionTemplate =
  Template_Name :: string
  Template_Alias :: string
  Template_Resources :: "string list"
  Template_Actions :: "string list"
  Template_Effect :: string
  Template_Scope :: string

text \<open>\<^verbatim>\<open>datastore.Entity\<close>: what \<^verbatim>\<open>BatchAdd\<close> receives.\<close>

datatype entity =
    PermissionEntity Permission
  | RoleEntity Role
  | ProjectUserEntity ProjectUser

text \<open>
  The interface \<^verbatim>\<open>datastore.DataStore\<close> is a collaborator of the service. Its
  queries are the fields of a record, one for each query that the two functions
  below make, with \<open>'e\<close> the type of the store's errors:
  \<^item> \<open>ListRoles project names\<close>: \<^verbatim>\<open>Store.List\<close> of the roles of a project (of the
    platform for the empty name) whose name is in \<open>names\<close>;
  \<^item> \<open>ListPermissionsIn project names\<close>: likewise for permissions, the query of
    \<^verbatim>\<open>listPermPolices\<close>;
  \<^item> \<open>ListPermissions project\<close>: the service's \<^verbatim>\<open>ListPermissions\<close>, all the
    permissions of a project;
  \<^item> \<open>GetProjectUser project username\<close>: \<^verbatim>\<open>Store.Get\<close> of a project membership;
  \<^item> \<open>Put\<close> and \<open>BatchAdd\<close>: the error that the write returns, \<open>None\<close> for
    \<^verbatim>\<open>nil\<close>.
  A function that writes returns the sequence of its writes.
\<close>

record 'e Store =
  ListRoles :: "string \<Rightarrow> string list \<Rightarrow> 'e + Role list"
  ListPermissionsIn :: "string \<Rightarrow> string list \<Rightarrow> 'e + Permission list"
  ListPermissions :: "string \<Rightarrow> 'e + Permission list"
  GetProjectUser :: "string \<Rightarrow> string \<Rightarrow> 'e + ProjectUser"
  Put :: "Permission \<Rightarrow> 'e option"
  BatchAdd :: "entity list \<Rightarrow> 'e option"

datatype storeWrite = PutWrite Permission | BatchAddWrite "entity list"

section \<open>GetUserPermissions\<close>

text \<open>\<^verbatim>\<open>listPermPolices\<close>.\<close>

definition listPermPolices ::
  "('e, 'z) Store_scheme \<Rightarrow> string \<Rightarrow> string list \<Rightarrow> 'e + Permission list" where
  "listPermPolices p projectName permissionNames =
     (if length permissionNames = 0 then Inr []
      else ListPermissionsIn p projectName permissionNames)"

text \<open>The permission that \<^verbatim>\<open>GetUserPermissions\<close> appends.\<close>

definition cloudshellPermission :: Permission where
  "cloudshellPermission =
     \<lparr>Name = ''cloudshell'', Alias = [], Project = [], Resources = [''cloudshell''],
      Actions = [''*''], Effect = ''Allow''\<rparr>"

text \<open>\<^verbatim>\<open>GetUserPermissions\<close>, in its three steps: the platform roles of the user
  (\<open>platformPermissions\<close>, which also hands on \<open>permissionNames\<close>), the roles of
  the user in the project (\<open>projectPermissions\<close>), and the final append.\<close>

definition platformPermissions ::
  "('e, 'z) Store_scheme \<Rightarrow> User \<Rightarrow> bool \<Rightarrow> 'e + (string list \<times> Permission list)" where
  "platformPermissions p user withPlatform =
     (if withPlatform \<and> length (User_UserRoles user) > 0 then
        (case ListRoles p [] (User_UserRoles user) of
           Inl err \<Rightarrow> Inl err
         | Inr entities \<Rightarrow>
             (let permissionNames = concat (map Role_Permissions entities)
              in case listPermPolices p [] permissionNames of
                   Inl err \<Rightarrow> Inl err
                 | Inr perms \<Rightarrow> Inr (permissionNames, perms)))
      else Inr ([], []))"

definition projectPermissions ::
  "('e, 'z) Store_scheme \<Rightarrow> User \<Rightarrow> string \<Rightarrow> string list \<Rightarrow> Permission list
   \<Rightarrow> 'e + Permission list" where
  "projectPermissions p user projectName permissionNames perms =
     (if projectName \<noteq> [] then
        (let roles = (case GetProjectUser p projectName (User_Name user) of
                        Inr projectUser \<Rightarrow> ProjectUser_UserRoles projectUser
                      | Inl err \<Rightarrow> [])
         in if length roles > 0 then
              (case ListRoles p projectName roles of
                 Inl err \<Rightarrow> Inl err
               | Inr entities \<Rightarrow>
                   (case listPermPolices p projectName
                           (permissionNames @ concat (map Role_Permissions entities)) of
                      Inl err \<Rightarrow> Inl err
                    | Inr projectPerms \<Rightarrow> Inr (perms @ projectPerms)))
            else Inr perms)
      else Inr perms)"

definition GetUserPermissions ::
  "('e, 'z) Store_scheme \<Rightarrow> User \<Rightarrow> string \<Rightarrow> bool \<Rightarrow> 'e + Permission list" where
  "GetUserPermissions p user projectName withPlatform =
     (case platformPermissions p user withPlatform of
        Inl err \<Rightarrow> Inl err
      | Inr (permissionNames, perms) \<Rightarrow>
          (case projectPermissions p user projectName permissionNames perms of
             Inl err \<Rightarrow> Inl err
           | Inr perms' \<Rightarrow> Inr (perms' @ [cloudshellPermission])))"

section \<open>SyncDefaultRoleAndUsersForProject\<close>

text \<open>\<^verbatim>\<open>var defaultProjectPermissionTemplate\<close>.\<close>

definition defaultProjectPermissionTemplate :: "PermissionTemplate list" where
  "defaultProjectPermissionTemplate =
  [\<lparr>Template_Name = ''project-view'', Template_Alias = ''Project View'',
    Template_Resources =
      [''project:{projectName}'',
       ''project:{projectName}/config:*'',
       ''project:{projectName}/provider:*'',
       ''project:{projectName}/role:*'',
       ''project:{projectName}/projectUser:*'',
       ''project:{projectName}/permission:*'',
       ''project:{projectName}/environment:*'',
       ''project:{projectName}/application:*/*'',
       ''project:{projectName}/pipeline:*/*''],
    Template_Actions = [''detail'', ''list''], Template_Effect = ''Allow'',
    Template_Scope = ''project''\<rparr>,
   \<lparr>Template_Name = ''app-management'', Template_Alias = ''App Management'',
    Template_Resources = [''project:{projectName}/application:*/*''],
    Template_Actions = [''*''], Template_Effect = ''Allow'', Template_Scope = ''project''\<rparr>,
   \<lparr>Template_Name = ''env-management'', Template_Alias = ''Environment Management'',
    Template_Resources = [''project:{projectName}/environment:*''],
    Template_Actions = [''*''], Template_Effect = ''Allow'', Template_Scope = ''project''\<rparr>,
   \<lparr>Template_Name = ''role-management'', Template_Alias = ''Role Management'',
    Template_Resources =
      [''project:{projectName}/role:*'', ''project:{projectName}/projectUser:*'',
       ''project:{projectName}/permission:*''],
    Template_Actions = [''*''], Template_Effect = ''Allow'', Template_Scope = ''project''\<rparr>,
   \<lparr>Template_Name = ''config-management'', Template_Alias = ''Config Management'',
    Template_Resources =
      [''project:{projectName}/config:*'', ''project:{projectName}/provider:*''],
    Template_Actions = [''*''], Template_Effect = ''Allow'', Template_Scope = ''project''\<rparr>,
   \<lparr>Template_Name = ''pipeline-management'', Template_Alias = ''Pipeline Management'',
    Template_Resources = [''project:{projectName}/pipeline:*/*''],
    Template_Actions = [''*''], Template_Effect = ''Allow'', Template_Scope = ''project''\<rparr>]"

text \<open>\<^verbatim>\<open>ResourceMaps["project"].pathName\<close>, and the formatting of one resource of
  a template: \<^verbatim>\<open>rra.SetResourceWithName(resource, ...)\<close> followed by
  \<^verbatim>\<open>rra.GetResource().String()\<close>.\<close>

definition projectPathName :: string where
  "projectPathName =
     (case map_of ResourceMaps ''project'' of
        Some metadata \<Rightarrow> pathName metadata
      | None \<Rightarrow> [])"

definition formatResource :: "model_Project \<Rightarrow> string \<Rightarrow> string" where
  "formatResource project res =
     String (resource (SetResourceWithName \<lparr>resource = nil, actions = []\<rparr> res
       (\<lambda>name. if name = projectPathName then Project_Name project else [])))"

text \<open>The loop over the templates. \<open>permissionMap\<close> is the map of the stored
  permissions by name, \<open>writes\<close> the writes made so far, \<open>batchData\<close> the
  entities collected for \<^verbatim>\<open>BatchAdd\<close>. The condition of the update is the one of
  the source.\<close>

fun syncTemplates ::
  "('e, 'z) Store_scheme \<Rightarrow> model_Project \<Rightarrow> (string \<Rightarrow> Permission option)
   \<Rightarrow> PermissionTemplate list \<Rightarrow> storeWrite list \<Rightarrow> entity list
   \<Rightarrow> (storeWrite list \<times> 'e) + (storeWrite list \<times> entity list)" where
  "syncTemplates p project permissionMap [] writes batchData = Inr (writes, batchData)"
| "syncTemplates p project permissionMap (permissionTemp # templates) writes batchData =
     (let formattedResource =
            map (formatResource project) (Template_Resources permissionTemp);
          permission =
            \<lparr>Name = Template_Name permissionTemp, Alias = Template_Alias permissionTemp,
             Project = Project_Name project, Resources = formattedResource,
             Actions = Template_Actions permissionTemp,
             Effect = Template_Effect permissionTemp\<rparr>
      in case permissionMap (Template_Name permissionTemp) of
           Some perm \<Rightarrow>
             (if \<not> EqualSlice (Resources perm) (Template_Resources permissionTemp)
                 \<or> EqualSlice (Actions perm) (Template_Actions permissionTemp)
              then (case Put p permission of
                      Some err \<Rightarrow> Inl (writes @ [PutWrite permission], err)
                    | None \<Rightarrow>
                        syncTemplates p project permissionMap templates
                          (writes @ [PutWrite permission]) batchData)
              else syncTemplates p project permissionMap templates writes batchData)
         | None \<Rightarrow>
             syncTemplates p project permissionMap templates writes
               (batchData @ [PermissionEntity permission]))"

text \<open>The roles, and the membership of the owner, added for a project without
  permissions.\<close>

definition defaultRoles :: "model_Project \<Rightarrow> entity list" where
  "defaultRoles project =
     [RoleEntity \<lparr>Role_Name = ''app-developer'', Role_Alias = ''App Developer'',
        Role_Project = Project_Name project,
        Role_Permissions = [''project-view'', ''app-management'', ''env-management'',
          ''config-management'', ''pipeline-management'']\<rparr>,
      RoleEntity \<lparr>Role_Name = ''project-admin'', Role_Alias = ''Project Admin'',
        Role_Project = Project_Name project,
        Role_Permissions = [''project-view'', ''app-management'', ''env-management'',
          ''pipeline-management'', ''config-management'', ''role-management'']\<rparr>,
      RoleEntity \<lparr>Role_Name = ''project-viewer'', Role_Alias = ''Project Viewer'',
        Role_Project = Project_Name project,
        Role_Permissions = [''project-view'']\<rparr>]
     @ (if Project_Owner project \<noteq> []
        then [ProjectUserEntity \<lparr>ProjectUser_Username = Project_Owner project,
                ProjectUser_ProjectName = Project_Name project,
                ProjectUser_UserRoles = [''project-admin'']\<rparr>]
        else [])"

text \<open>\<^verbatim>\<open>SyncDefaultRoleAndUsersForProject\<close>: the writes made, and the error
  returned.\<close>

definition SyncDefaultRoleAndUsersForProject ::
  "('e, 'z) Store_scheme \<Rightarrow> model_Project \<Rightarrow> storeWrite list \<times> 'e option" where
  "SyncDefaultRoleAndUsersForProject p project =
     (case ListPermissions p (Project_Name project) of
        Inl err \<Rightarrow> ([], Some err)
      | Inr permissions \<Rightarrow>
          (let permissionMap = map_of (rev (map (\<lambda>per. (Name per, per)) permissions))
           in case syncTemplates p project permissionMap defaultProjectPermissionTemplate
                     [] [] of
                Inl (writes, err) \<Rightarrow> (writes, Some err)
              | Inr (writes, batchData) \<Rightarrow>
                  (let batchData' =
                         (if length permissions = 0 then batchData @ defaultRoles project
                          else batchData)
                   in (writes @ [BatchAddWrite batchData'], BatchAdd p batchData'))))"

fun isPut :: "storeWrite \<Rightarrow> bool" where
  "isPut (PutWrite permission) = True"
| "isPut (BatchAddWrite batchData) = False"

text \<open>A permission that some query of \<^verbatim>\<open>listPermPolices\<close> to the store returns.\<close>

abbreviation fromStore :: "('e, 'z) Store_scheme \<Rightarrow> Permission \<Rightarrow> bool" where
  "fromStore p perm \<equiv>
     (\<exists>project names stored. ListPermissionsIn p project names = Inr stored \<and> perm \<in> set stored)"

text \<open>A store for the examples: it answers every query with the role \<open>admin\<close>
  and the permissions \<open>stored\<close>, has no project membership, and accepts every
  write.\<close>

definition exampleStore :: "Permission list \<Rightarrow> string Store" where
  "exampleStore stored =
     \<lparr>ListRoles = (\<lambda>project names.
        Inr [\<lparr>Role_Name = ''admin'', Role_Alias = ''Admin'', Role_Project = [],
              Role_Permissions = [''admin'']\<rparr>]),
      ListPermissionsIn = (\<lambda>project names. Inr stored),
      ListPermissions = (\<lambda>project. Inr stored),
      GetProjectUser = (\<lambda>project username. Inl ''record not exist''),
      Put = (\<lambda>permission. None),
      BatchAdd = (\<lambda>batchData. None)\<rparr>"

section \<open>Facts about the evaluator's loops\<close>

lemma SliceIncludeSlice_subset: "SliceIncludeSlice a b \<longleftrightarrow> set b \<subseteq> set a"
  by (auto simp: SliceIncludeSlice_def StringsContain_def list_all_iff)

lemma matchResources_iff:
  "matchResources target rs \<longleftrightarrow> (\<exists>res \<in> set rs. Match (ParseResourceName res) target)"
  by (induction rs) auto

lemma denyMatches_iff:
  "denyMatches r ps \<longleftrightarrow> (\<exists>p \<in> set ps. EqualFold (Effect p) ''deny'' \<and> match r p)"
  by (induction ps) auto

lemma allowMatches_iff:
  "allowMatches r ps \<longleftrightarrow>
     (\<exists>p \<in> set ps. (EqualFold (Effect p) ''allow'' \<or> Effect p = []) \<and> match r p)"
  by (induction ps) auto

lemma EqualFold_Deny: "EqualFold ''Deny'' ''deny''"
  by code_simp

lemma EqualFold_Allow: "EqualFold ''Allow'' ''allow''"
  by code_simp

lemma not_EqualFold_Allow_deny: "\<not> EqualFold ''Allow'' ''deny''"
  by code_simp

lemma not_EqualFold_Deny_allow: "\<not> EqualFold ''Deny'' ''allow''"
  by code_simp

lemmas parse_simps = ParseResourceName_def tokenType_def tokenValue_def

section \<open>Deny overrides allow\<close>

text \<open>
  C1. Whatever the policy list and the request: when the list holds a policy whose
  effect is Deny (compared case-insensitively), whose action set includes the
  requested actions or contains \<open>*\<close>, and one of whose resource patterns matches
  the request's resource, \<open>RequestResourceAction.Match\<close> returns false. The list is
  arbitrary, so neither the Allow policies in it nor the position of the Deny
  policy matter.
\<close>

theorem C1_deny_overrides_allow:
  assumes "policy \<in> set policies"
    and "EqualFold (Effect policy) ''deny''"
    and "SliceIncludeSlice (Actions policy) (actions r)
         \<or> StringsContain (Actions policy) ''*''"
    and "pattern \<in> set (Resources policy)"
    and "Match (ParseResourceName pattern) (resource r)"
  shows "MatchPolicies r policies = False"
proof -
  from assms(4,5) have "matchResources (resource r) (Resources policy)"
    unfolding matchResources_iff by blast
  with assms(3) have "match r policy"
    by (auto simp: match_def)
  with assms(1,2) have "denyMatches r policies"
    unfolding denyMatches_iff by blast
  then show ?thesis
    by (simp add: MatchPolicies_def)
qed

text \<open>The spec's scenario: Allow on \<open>*\<close> for all actions and Deny on \<open>cluster:*\<close>
  for all actions, request \<open>cluster:c1\<close>. The Allow policy alone permits the
  request; with the Deny policy behind it the request is rejected.\<close>

theorem C1_deny_overrides_allow_witness:
  "\<lparr>Name = ''no-cluster'', Alias = [], Project = [], Resources = [''cluster:*''],
     Actions = [''*''], Effect = ''Deny''\<rparr>
     \<in> set [\<lparr>Name = ''admin'', Alias = [], Project = [], Resources = [''*''],
               Actions = [''*''], Effect = ''Allow''\<rparr>,
             \<lparr>Name = ''no-cluster'', Alias = [], Project = [],
               Resources = [''cluster:*''], Actions = [''*''], Effect = ''Deny''\<rparr>]
   \<and> EqualFold ''Deny'' ''deny''
   \<and> StringsContain [''*''] ''*''
   \<and> Match (ParseResourceName ''cluster:*'') (ParseResourceName ''cluster:c1'')
   \<and> MatchPolicies \<lparr>resource = ParseResourceName ''cluster:c1'', actions = [''detail'']\<rparr>
        [\<lparr>Name = ''admin'', Alias = [], Project = [], Resources = [''*''],
          Actions = [''*''], Effect = ''Allow''\<rparr>]
   \<and> MatchPolicies \<lparr>resource = ParseResourceName ''cluster:c1'', actions = [''detail'']\<rparr>
        [\<lparr>Name = ''admin'', Alias = [], Project = [], Resources = [''*''],
          Actions = [''*''], Effect = ''Allow''\<rparr>,
         \<lparr>Name = ''no-cluster'', Alias = [], Project = [], Resources = [''cluster:*''],
          Actions = [''*''], Effect = ''Deny''\<rparr>] = False"
proof -
  let ?deny = "\<lparr>Name = ''no-cluster'', Alias = [], Project = [],
    Resources = [''cluster:*''], Actions = [''*''], Effect = ''Deny''\<rparr>"
  let ?allow = "\<lparr>Name = ''admin'', Alias = [], Project = [], Resources = [''*''],
    Actions = [''*''], Effect = ''Allow''\<rparr>"
  let ?r = "\<lparr>resource = ParseResourceName ''cluster:c1'', actions = [''detail'']\<rparr>"
  have m: "Match (ParseResourceName ''cluster:*'') (ParseResourceName ''cluster:c1'')"
    by (simp add: parse_simps)
  have s: "StringsContain [''*''] ''*''"
    by (simp add: StringsContain_def)
  have alone: "MatchPolicies ?r [?allow]"
    by (simp add: MatchPolicies_def match_def StringsContain_def parse_simps
        EqualFold_Allow not_EqualFold_Allow_deny)
  have "MatchPolicies ?r [?allow, ?deny] = False"
    using C1_deny_overrides_allow [of ?deny "[?allow, ?deny]" ?r "''cluster:*''"] m s
    by (simp add: EqualFold_Deny)
  with m s alone show ?thesis
    by (simp add: EqualFold_Deny)
qed

section \<open>Fail-closed default\<close>

text \<open>
  C2. Whatever the policy list and the request: when no policy of the list matches
  the request, \<open>RequestResourceAction.Match\<close> returns false. This is so in
  particular when no resource pattern of any policy matches the request's
  resource, and for the empty list.
\<close>

theorem C2_fail_closed:
  "((\<forall>policy \<in> set policies. \<not> match r policy) \<longrightarrow> MatchPolicies r policies = False)
   \<and> ((\<forall>policy \<in> set policies. \<forall>pattern \<in> set (Resources policy).
          \<not> Match (ParseResourceName pattern) (resource r))
        \<longrightarrow> MatchPolicies r policies = False)
   \<and> MatchPolicies r [] = False"
proof -
  have none: "MatchPolicies r policies = False"
    if "\<forall>policy \<in> set policies. \<not> match r policy" for policies
    using that by (simp add: MatchPolicies_def denyMatches_iff allowMatches_iff)
  have "\<forall>policy \<in> set policies. \<not> match r policy"
    if "\<forall>policy \<in> set policies. \<forall>pattern \<in> set (Resources policy).
          \<not> Match (ParseResourceName pattern) (resource r)"
    using that by (simp add: match_def matchResources_iff)
  with none show ?thesis
    by (auto simp: MatchPolicies_def)
qed

text \<open>An Allow policy for everything under project \<open>p1\<close> and a request for
  \<open>cluster:c1\<close>: the only pattern does not match, and the request is rejected.\<close>

theorem C2_fail_closed_witness:
  "\<not> Match (ParseResourceName ''project:p1/*'') (ParseResourceName ''cluster:c1'')
   \<and> MatchPolicies \<lparr>resource = ParseResourceName ''cluster:c1'', actions = [''detail'']\<rparr>
        [\<lparr>Name = ''p1-admin'', Alias = [], Project = ''p1'',
          Resources = [''project:p1/*''], Actions = [''*''], Effect = ''Allow''\<rparr>] = False"
proof -
  let ?p = "\<lparr>Name = ''p1-admin'', Alias = [], Project = ''p1'',
    Resources = [''project:p1/*''], Actions = [''*''], Effect = ''Allow''\<rparr>"
  let ?r = "\<lparr>resource = ParseResourceName ''cluster:c1'', actions = [''detail'']\<rparr>"
  have n: "\<not> Match (ParseResourceName ''project:p1/*'') (ParseResourceName ''cluster:c1'')"
    by (simp add: parse_simps)
  then show ?thesis
    using C2_fail_closed [of "[?p]" ?r] by simp
qed

section \<open>Matching of resource chains is asymmetric\<close>

text \<open>
  C3, as the spec words it: the pattern \<open>project:*\<close> matches the target
  \<open>project:foo/application:bar\<close>, and the pattern \<open>project:foo/application:bar\<close>
  does not match the target \<open>project:foo\<close>. The first half fails: after the
  pattern's last segment the target still has the segment \<open>application:bar\<close>, and
  the check after the loop of \<open>ResourceName.Match\<close> returns false.
\<close>

theorem C3_counterexample:
  "\<not> (Match (ParseResourceName ''project:*'') (ParseResourceName ''project:foo/application:bar'')
      \<and> \<not> Match (ParseResourceName ''project:foo/application:bar'')
            (ParseResourceName ''project:foo''))"
  by (simp add: parse_simps)

text \<open>
  C3, amended. The pattern \<open>project:*\<close> matches the target \<open>project:foo\<close> and
  does not match the longer target \<open>project:foo/application:bar\<close>; it is the
  wildcard type, as in \<open>project:*/*\<close>, that takes in the rest of a target. In the
  other direction nothing matches: \<open>project:foo/application:bar\<close> matches neither
  \<open>project:*/*\<close> nor \<open>project:foo\<close>, and \<open>project:foo\<close> does not match
  \<open>project:*\<close>.
\<close>

theorem C3_match_is_asymmetric:
  "\<not> Match (ParseResourceName ''project:*'') (ParseResourceName ''project:foo/application:bar'')
   \<and> Match (ParseResourceName ''project:*/*'') (ParseResourceName ''project:foo/application:bar'')
   \<and> \<not> Match (ParseResourceName ''project:foo/application:bar'') (ParseResourceName ''project:*/*'')
   \<and> Match (ParseResourceName ''project:*'') (ParseResourceName ''project:foo'')
   \<and> \<not> Match (ParseResourceName ''project:foo'') (ParseResourceName ''project:*'')
   \<and> \<not> Match (ParseResourceName ''project:foo/application:bar'') (ParseResourceName ''project:foo'')"
  by (simp add: parse_simps)

section \<open>The action test of a policy\<close>

text \<open>
  C4. A policy matches a request exactly when its action set includes every
  requested action or contains \<open>*\<close>, and one of its resource patterns matches the
  request's resource; so a policy that fails the action test matches no request,
  whatever its patterns. With a matching pattern, the actions \<open>list, detail\<close>
  permit a request for \<open>list\<close> and not one for \<open>list, delete\<close>, and the action
  \<open>*\<close> permits every request.
\<close>

theorem C4_action_superset_rule:
  "(match r policy \<longleftrightarrow>
      (set (actions r) \<subseteq> set (Actions policy) \<or> ''*'' \<in> set (Actions policy))
      \<and> (\<exists>pattern \<in> set (Resources policy).
            Match (ParseResourceName pattern) (resource r)))
   \<and> (\<not> (set (actions r) \<subseteq> set (Actions policy) \<or> ''*'' \<in> set (Actions policy))
        \<longrightarrow> \<not> match r policy)
   \<and> (Actions policy = [''list'', ''detail'']
        \<and> matchResources (resource r) (Resources policy)
        \<longrightarrow> (actions r = [''list''] \<longrightarrow> match r policy)
            \<and> (actions r = [''list'', ''delete''] \<longrightarrow> \<not> match r policy))
   \<and> (Actions policy = [''*''] \<and> matchResources (resource r) (Resources policy)
        \<longrightarrow> match r policy)"
  by (auto simp: match_def SliceIncludeSlice_subset StringsContain_def matchResources_iff)

text \<open>The policies of the example on \<open>project:p1/*\<close>, and a policy for \<open>delete\<close>
  only with the pattern \<open>*\<close>, which matches every resource.\<close>

theorem C4_action_superset_rule_witness:
  "match \<lparr>resource = ParseResourceName ''project:p1/application:a1'', actions = [''list'']\<rparr>
     \<lparr>Name = ''view'', Alias = [], Project = ''p1'', Resources = [''project:p1/*''],
      Actions = [''list'', ''detail''], Effect = ''Allow''\<rparr>
   \<and> \<not> match \<lparr>resource = ParseResourceName ''project:p1/application:a1'',
               actions = [''list'', ''delete'']\<rparr>
     \<lparr>Name = ''view'', Alias = [], Project = ''p1'', Resources = [''project:p1/*''],
      Actions = [''list'', ''detail''], Effect = ''Allow''\<rparr>
   \<and> match \<lparr>resource = ParseResourceName ''project:p1/application:a1'',
             actions = [''list'', ''delete'']\<rparr>
     \<lparr>Name = ''all'', Alias = [], Project = ''p1'', Resources = [''project:p1/*''],
      Actions = [''*''], Effect = ''Allow''\<rparr>
   \<and> \<not> match \<lparr>resource = ParseResourceName ''project:p1/application:a1'',
               actions = [''list'']\<rparr>
     \<lparr>Name = ''delete'', Alias = [], Project = ''p1'', Resources = [''*''],
      Actions = [''delete''], Effect = ''Allow''\<rparr>"
proof -
  let ?view = "\<lparr>Name = ''view'', Alias = [], Project = ''p1'',
    Resources = [''project:p1/*''], Actions = [''list'', ''detail''], Effect = ''Allow''\<rparr>"
  let ?all = "\<lparr>Name = ''all'', Alias = [], Project = ''p1'',
    Resources = [''project:p1/*''], Actions = [''*''], Effect = ''Allow''\<rparr>"
  let ?delete = "\<lparr>Name = ''delete'', Alias = [], Project = ''p1'', Resources = [''*''],
    Actions = [''delete''], Effect = ''Allow''\<rparr>"
  let ?r1 = "\<lparr>resource = ParseResourceName ''project:p1/application:a1'',
    actions = [''list'']\<rparr>"
  let ?r2 = "\<lparr>resource = ParseResourceName ''project:p1/application:a1'',
    actions = [''list'', ''delete'']\<rparr>"
  have m: "Match (ParseResourceName ''project:p1/*'')
     (ParseResourceName ''project:p1/application:a1'')"
    by (simp add: parse_simps)
  have "match ?r1 ?view"
    using C4_action_superset_rule [of ?r1 ?view] m by simp
  moreover have "\<not> match ?r2 ?view"
    using C4_action_superset_rule [of ?r2 ?view] m by simp
  moreover have "match ?r2 ?all"
    using C4_action_superset_rule [of ?r2 ?all] m by simp
  moreover have "\<not> match ?r1 ?delete"
    using C4_action_superset_rule [of ?r1 ?delete] by simp
  ultimately show ?thesis
    by blast
qed

section \<open>Policies with an unknown effect\<close>

text \<open>
  C10. A policy whose effect is not \<open>deny\<close> and not \<open>allow\<close> under case folding,
  and not the empty string, is passed over by both loops: wherever it stands in
  the list, \<open>RequestResourceAction.Match\<close> decides as it does on the list without
  it.
\<close>

theorem C10_unknown_effect_is_skipped:
  assumes "\<not> EqualFold (Effect policy) ''deny''"
    and "\<not> EqualFold (Effect policy) ''allow''"
    and "Effect policy \<noteq> []"
  shows "MatchPolicies r (before @ policy # after) = MatchPolicies r (before @ after)"
  using assms by (simp add: MatchPolicies_def denyMatches_iff allowMatches_iff)

lemma not_EqualFold_Denied: "\<not> EqualFold ''Denied'' ''deny'' \<and> \<not> EqualFold ''Denied'' ''allow''"
  by code_simp

lemma not_EqualFold_allow_space:
  "\<not> EqualFold ''allow '' ''deny'' \<and> \<not> EqualFold ''allow '' ''allow''"
  by code_simp

text \<open>A policy with the effect \<open>Denied\<close> that matches the request: behind an
  Allow policy it does not reject the request, and alone it does not permit
  it. A policy for everything with the effect \<open>allow\<close> followed by a space
  does not permit it either.\<close>

theorem C10_unknown_effect_is_skipped_witness:
  "\<not> EqualFold ''Denied'' ''deny'' \<and> \<not> EqualFold ''Denied'' ''allow'' \<and> ''Denied'' \<noteq> []
   \<and> match \<lparr>resource = ParseResourceName ''cluster:c1'', actions = [''detail'']\<rparr>
        \<lparr>Name = ''no-cluster'', Alias = [], Project = [], Resources = [''cluster:*''],
         Actions = [''*''], Effect = ''Denied''\<rparr>
   \<and> MatchPolicies \<lparr>resource = ParseResourceName ''cluster:c1'', actions = [''detail'']\<rparr>
        ([\<lparr>Name = ''admin'', Alias = [], Project = [], Resources = [''*''],
           Actions = [''*''], Effect = ''Allow''\<rparr>]
         @ \<lparr>Name = ''no-cluster'', Alias = [], Project = [], Resources = [''cluster:*''],
            Actions = [''*''], Effect = ''Denied''\<rparr> # [])
     = MatchPolicies \<lparr>resource = ParseResourceName ''cluster:c1'', actions = [''detail'']\<rparr>
        ([\<lparr>Name = ''admin'', Alias = [], Project = [], Resources = [''*''],
           Actions = [''*''], Effect = ''Allow''\<rparr>] @ [])
   \<and> MatchPolicies \<lparr>resource = ParseResourceName ''cluster:c1'', actions = [''detail'']\<rparr>
        [\<lparr>Name = ''admin'', Alias = [], Project = [], Resources = [''*''],
          Actions = [''*''], Effect = ''Allow''\<rparr>,
         \<lparr>Name = ''no-cluster'', Alias = [], Project = [], Resources = [''cluster:*''],
          Actions = [''*''], Effect = ''Denied''\<rparr>]
   \<and> MatchPolicies \<lparr>resource = ParseResourceName ''cluster:c1'', actions = [''detail'']\<rparr>
        [\<lparr>Name = ''no-cluster'', Alias = [], Project = [], Resources = [''cluster:*''],
          Actions = [''*''], Effect = ''Denied''\<rparr>] = False
   \<and> \<not> EqualFold ''allow '' ''deny'' \<and> \<not> EqualFold ''allow '' ''allow''
   \<and> MatchPolicies \<lparr>resource = ParseResourceName ''cluster:c1'', actions = [''detail'']\<rparr>
        [\<lparr>Name = ''admin'', Alias = [], Project = [], Resources = [''*''],
          Actions = [''*''], Effect = ''allow ''\<rparr>] = False"
proof -
  let ?p = "\<lparr>Name = ''no-cluster'', Alias = [], Project = [], Resources = [''cluster:*''],
    Actions = [''*''], Effect = ''Denied''\<rparr>"
  let ?allow = "\<lparr>Name = ''admin'', Alias = [], Project = [], Resources = [''*''],
    Actions = [''*''], Effect = ''Allow''\<rparr>"
  let ?q = "\<lparr>Name = ''admin'', Alias = [], Project = [], Resources = [''*''],
    Actions = [''*''], Effect = ''allow ''\<rparr>"
  let ?r = "\<lparr>resource = ParseResourceName ''cluster:c1'', actions = [''detail'']\<rparr>"
  have m: "match ?r ?p"
    by (simp add: match_def StringsContain_def parse_simps)
  have skipped: "MatchPolicies ?r ([?allow] @ ?p # []) = MatchPolicies ?r ([?allow] @ [])"
    using C10_unknown_effect_is_skipped [of ?p ?r "[?allow]" "[]"] not_EqualFold_Denied
    by simp
  have permitted: "MatchPolicies ?r [?allow]"
    by (simp add: MatchPolicies_def match_def StringsContain_def parse_simps
        EqualFold_Allow not_EqualFold_Allow_deny)
  have "MatchPolicies ?r ([] @ ?p # []) = MatchPolicies ?r ([] @ [])"
    using C10_unknown_effect_is_skipped [of ?p ?r "[]" "[]"] not_EqualFold_Denied
    by simp
  then have alone: "MatchPolicies ?r [?p] = False"
    by (simp add: MatchPolicies_def)
  have "MatchPolicies ?r ([] @ ?q # []) = MatchPolicies ?r ([] @ [])"
    using C10_unknown_effect_is_skipped [of ?q ?r "[]" "[]"] not_EqualFold_allow_space
    by simp
  then have space: "MatchPolicies ?r [?q] = False"
    by (simp add: MatchPolicies_def)
  from m skipped permitted alone space show ?thesis
    using not_EqualFold_Denied not_EqualFold_allow_space by simp
qed

section \<open>Rendering and parsing a chain\<close>

subsection \<open>Splitting\<close>

lemma Split_not_Nil: "Split s sep \<noteq> []"
  by (induction s) (auto split: list.splits)

lemma Split_no_sep: "sep \<notin> set s \<Longrightarrow> Split s sep = [s]"
  by (induction s) auto

lemma Split_append_sep: "sep \<notin> set a \<Longrightarrow> Split (a @ sep # rest) sep = a # Split rest sep"
  by (induction a) auto

lemma token_of_segment:
  assumes "CHR '':'' \<notin> set ty" and "CHR '':'' \<notin> set v"
  shows "tokenType (ty @ CHR '':'' # v) = ty" and "tokenValue (ty @ CHR '':'' # v) = v"
proof -
  have "Split (ty @ CHR '':'' # v) (CHR '':'') = [ty, v]"
    using assms by (simp add: Split_append_sep Split_no_sep)
  then show "tokenType (ty @ CHR '':'' # v) = ty" and "tokenValue (ty @ CHR '':'' # v) = v"
    by (simp_all add: tokenType_def tokenValue_def)
qed

subsection \<open>Rendering, then parsing\<close>

lemma writeSegments_render: "writeSegments r = render (segments r)"
  by (induction r) auto

lemma TrimSuffix_slash: "TrimSuffix (x @ ''/'') ''/'' = x"
  by (simp add: TrimSuffix_def)

lemma render_joined: "segs \<noteq> [] \<Longrightarrow> render segs = joined segs @ ''/''"
  by (induction segs rule: joined.induct) auto

lemma parseTokens_node:
  "\<exists>ty v nx. parseTokens RNs = ResourceName ty v nx"
  by (cases RNs) auto

lemma pairs_parseTokens:
  "pairs (parseTokens RNs) = map (\<lambda>rn. (tokenType rn, tokenValue rn)) RNs"
proof (induction RNs)
  case Nil
  then show ?case by simp
next
  case (Cons rn RNs)
  obtain ty v nx where node: "parseTokens RNs = ResourceName ty v nx"
    using parseTokens_node by blast
  with Cons show ?case by simp
qed

lemma tokens_joined:
  "wellFormed segs \<Longrightarrow> segs \<noteq> [] \<Longrightarrow>
   map (\<lambda>rn. (tokenType rn, tokenValue rn)) (Split (joined segs) (CHR ''/'')) = segs"
proof (induction segs rule: joined.induct)
  case 1
  then show ?case by simp
next
  case (2 ty v)
  then have "CHR ''/'' \<notin> set (ty @ '':'' @ v)"
    by (auto simp: wellFormed_def separatorFree_def)
  then have "Split (ty @ '':'' @ v) (CHR ''/'') = [ty @ '':'' @ v]"
    by (rule Split_no_sep)
  with 2 show ?case
    by (simp add: token_of_segment wellFormed_def separatorFree_def)
next
  case (3 ty v seg segs)
  then have nosl: "CHR ''/'' \<notin> set (ty @ '':'' @ v)"
    by (auto simp: wellFormed_def separatorFree_def)
  have "Split ((ty @ '':'' @ v) @ CHR ''/'' # joined (seg # segs)) (CHR ''/'')
        = (ty @ '':'' @ v) # Split (joined (seg # segs)) (CHR ''/'')"
    using nosl by (rule Split_append_sep)
  moreover have "wellFormed (seg # segs)"
    using 3 by (simp add: wellFormed_def)
  ultimately show ?case
    using 3 by (simp add: token_of_segment wellFormed_def separatorFree_def)
qed

lemma segments_pairs:
  "\<forall>(ty, v) \<in> set (pairs r). ty \<noteq> [] \<Longrightarrow> segments r = pairs r"
proof (induction r)
  case nil
  then show ?case by simp
next
  case (ResourceName ty v nx)
  then show ?case by (cases nx) auto
qed

text \<open>
  C6, as the spec words it: for every chain, parsing its rendering gives a chain
  with the same pairs, the trailing sentinel left aside. It fails in three ways.
  A separator inside a field: the value \<open>b:c\<close> renders as \<open>a:b:c\<close>, a token
  with two colons, to which \<open>ParseResourceName\<close> assigns neither type nor value.
  A node with an empty type before the end: the chain parsed from \<open>/project:p1\<close>
  has the pairs of an empty type with \<open>*\<close> and of \<open>project\<close> with \<open>p1\<close>;
  \<open>String\<close> stops at the first of them and renders the empty string, and the
  second pair is lost. The chain without pairs: it renders as the empty string,
  whose parse has one pair, an empty type with the value \<open>*\<close>.
\<close>

theorem C6_counterexample:
  "pairs (ParseResourceName (String (ResourceName ''a'' ''b:c'' (ResourceName [] [] nil))))
     \<noteq> pairs (ResourceName ''a'' ''b:c'' (ResourceName [] [] nil))
   \<and> pairs (ParseResourceName (String (ParseResourceName ''/project:p1'')))
     \<noteq> pairs (ParseResourceName ''/project:p1'')
   \<and> pairs (ParseResourceName (String (ResourceName [] [] nil)))
     \<noteq> pairs (ResourceName [] [] nil)"
  by (simp add: String_def TrimSuffix_def parse_simps)

text \<open>
  C6, amended. For every chain with at least one pair, whose pairs all have a
  non-empty type and hold neither \<open>/\<close> nor \<open>:\<close> in their types and values,
  parsing its rendering gives a chain with the same ordered pairs, the trailing
  sentinel left aside.
\<close>

theorem C6_round_trip:
  assumes "pairs r \<noteq> []"
    and "\<forall>(ty, v) \<in> set (pairs r). ty \<noteq> [] \<and> separatorFree ty \<and> separatorFree v"
  shows "pairs (ParseResourceName (String r)) = pairs r"
proof -
  have seg: "segments r = pairs r"
    using assms(2) by (intro segments_pairs) auto
  have wf: "wellFormed (pairs r)"
    using assms(2) by (simp add: wellFormed_def)
  have "String r = joined (pairs r)"
    using assms(1) seg
    by (simp add: String_def writeSegments_render render_joined TrimSuffix_slash)
  then show ?thesis
    using tokens_joined [OF wf assms(1)]
    by (simp add: ParseResourceName_def pairs_parseTokens)
qed

text \<open>The chain of \<open>project:p1/application:*\<close>.\<close>

theorem C6_round_trip_witness:
  "pairs (ResourceName ''project'' ''p1''
        (ResourceName ''application'' ''*'' (ResourceName [] [] nil)))
       = [(''project'', ''p1''), (''application'', ''*'')]
   \<and> separatorFree ''project'' \<and> separatorFree ''p1''
   \<and> separatorFree ''application'' \<and> separatorFree ''*''
   \<and> String (ResourceName ''project'' ''p1''
        (ResourceName ''application'' ''*'' (ResourceName [] [] nil)))
       = ''project:p1/application:*''
   \<and> pairs (ParseResourceName (String (ResourceName ''project'' ''p1''
        (ResourceName ''application'' ''*'' (ResourceName [] [] nil)))))
       = [(''project'', ''p1''), (''application'', ''*'')]"
proof -
  let ?r = "ResourceName ''project'' ''p1''
    (ResourceName ''application'' ''*'' (ResourceName [] [] nil))"
  have p: "pairs ?r = [(''project'', ''p1''), (''application'', ''*'')]"
    by simp
  have s: "separatorFree ''project''" "separatorFree ''p1''"
    "separatorFree ''application''" "separatorFree ''*''"
    by (simp_all add: separatorFree_def)
  have "pairs (ParseResourceName (String ?r)) = pairs ?r"
    by (rule C6_round_trip) (simp_all add: s)
  with p s show ?thesis
    by (simp add: String_def TrimSuffix_def)
qed

section \<open>The path resolver\<close>

subsection \<open>The loop over the index\<close>

lemma scanPaths_same:
  "\<forall>e \<in> set paths. matchedPrefix res e = None \<or> matchedPrefix res e = Some p \<Longrightarrow>
   scanPaths res (p, n) paths = (p, n)"
  by (induction paths) auto

lemma scanPaths_first:
  "\<forall>e \<in> set paths. matchedPrefix res e = None \<or> matchedPrefix res e = Some p \<Longrightarrow>
   path \<noteq> p \<Longrightarrow>
   scanPaths res (path, n) paths =
     (if \<exists>e \<in> set paths. matchedPrefix res e = Some p then (p, n + 1) else (path, n))"
proof (induction paths)
  case Nil
  then show ?case by simp
next
  case (Cons e es)
  then show ?case
    by (cases "matchedPrefix res e") (auto simp: scanPaths_same)
qed

lemma scanPaths_none:
  "\<forall>e \<in> set paths. matchedPrefix res e = None \<Longrightarrow>
   scanPaths res (path, n) paths = (path, n)"
  by (induction paths) auto

lemma scanPaths_count:
  "snd (scanPaths res (path, n) paths)
     \<ge> n + card (set (matchingPrefixes res paths) - {path})"
proof (induction paths arbitrary: path n)
  case Nil
  then show ?case by (simp add: matchingPrefixes_def)
next
  case (Cons e es)
  show ?case
  proof (cases "matchedPrefix res e")
    case None
    then show ?thesis
      using Cons.IH [of n path] by (simp add: matchingPrefixes_def)
  next
    case (Some pre)
    let ?P = "set (matchingPrefixes res es)"
    have mp: "set (matchingPrefixes res (e # es)) = insert pre ?P"
      using Some by (simp add: matchingPrefixes_def)
    show ?thesis
    proof (cases "pre = path")
      case True
      then have "insert pre ?P - {path} = ?P - {path}" by auto
      then show ?thesis
        using Cons.IH [of n path] Some True mp by simp
    next
      case False
      have "insert pre ?P - {path} \<subseteq> insert pre (?P - {pre})" by auto
      then have "card (insert pre ?P - {path}) \<le> card (insert pre (?P - {pre}))"
        by (intro card_mono) auto
      also have "\<dots> = Suc (card (?P - {pre}))"
        by (rule card_insert_disjoint) auto
      finally show ?thesis
        using Cons.IH [of "n + 1" pre] Some False mp by simp
    qed
  qed
qed

lemma Index_bound: "Index s sub = Some i \<Longrightarrow> i + length sub \<le> length s"
proof (induction s arbitrary: i)
  case Nil
  then show ?case by (simp split: if_splits)
next
  case (Cons c cs)
  have hp: "HasPrefix s sub \<Longrightarrow> length sub \<le> length s" for s
    by (induction s sub rule: HasPrefix.induct) auto
  from Cons show ?case
    by (auto split: if_splits dest: hp)
qed

lemma matchedPrefix_not_Nil: "matchedPrefix res e = Some pre \<Longrightarrow> pre \<noteq> []"
proof -
  assume a: "matchedPrefix res e = Some pre"
  obtain key erp where e: "e = (key, erp)" by (cases e)
  from a e obtain index where
    i: "Index erp (''/'' @ lastResourceName res @ '':'') = Some index"
    by (auto simp: matchedPrefix_def split: option.splits)
  then have "index + length (lastResourceName res) + 2 \<le> length erp"
    using Index_bound [OF i] by simp
  then have "take (index + length (lastResourceName res) + 2) erp \<noteq> []"
    by auto
  with a e i show ?thesis
    by (auto simp: matchedPrefix_def Let_def split: option.splits)
qed

lemma Nil_not_matching: "[] \<notin> set (matchingPrefixes res paths)"
  by (induction paths)
    (auto simp: matchingPrefixes_def split: option.splits dest: matchedPrefix_not_Nil)

lemma set_matchingPrefixes:
  "p \<in> set (matchingPrefixes res paths) \<longleftrightarrow> (\<exists>e \<in> set paths. matchedPrefix res e = Some p)"
  by (induction paths) (auto simp: matchingPrefixes_def split: option.splits)

lemma matchingPrefixes_Nil:
  "matchingPrefixes res paths = [] \<longleftrightarrow> (\<forall>e \<in> set paths. matchedPrefix res e = None)"
  by (induction paths) (auto simp: matchingPrefixes_def split: option.splits)

subsection \<open>The registered schema\<close>

lemma widget_unmatched:
  "list_all (\<lambda>e. matchedPrefix ''widget'' e = None) existResourcePaths"
  by code_simp

lemma component_prefixes:
  "list_all (\<lambda>e. matchedPrefix ''component'' e = None
     \<or> matchedPrefix ''component'' e
        = Some ''/project:{projectName}/application:{appName}/component:{compName}'')
     existResourcePaths"
  by code_simp

lemma component_matched:
  "list_ex (\<lambda>e. matchedPrefix ''component'' e
     = Some ''/project:{projectName}/application:{appName}/component:{compName}'')
     existResourcePaths"
  by code_simp

lemma component_not_top_level: "map_of ResourceMaps ''component'' = None"
  by code_simp

lemma widget_not_top_level: "map_of ResourceMaps ''widget'' = None"
  by code_simp

lemma component_placeholders:
  "FindAllString ''project:{projectName}/application:{appName}/component:{compName}''
   = [''{projectName}'', ''{appName}'', ''{compName}'']"
  by code_simp

lemma component_trimmed:
  "TrimPrefix (TrimSuffix
     ''/project:{projectName}/application:{appName}/component:{compName}'' ''/'') ''/''
   = ''project:{projectName}/application:{appName}/component:{compName}''"
  by code_simp

lemma workflow_not_top_level: "map_of ResourceMaps ''workflow'' = None"
  by code_simp

lemma workflow_prefixes:
  "remdups (matchingPrefixes ''workflow'' existResourcePaths)
   = [''/project:{projectName}/application:{appName}/workflow:{workflowName}'',
      ''/project:{projectName}/workflow:{workflowName}'']"
  by code_simp

lemma widget_prefixes: "matchingPrefixes ''widget'' existResourcePaths = []"
  by code_simp

lemma component_prefix_list:
  "remdups (matchingPrefixes ''component'' existResourcePaths)
   = [''/project:{projectName}/application:{appName}/component:{compName}'']"
  by code_simp

subsection \<open>Resolving and instantiating \<open>component\<close>\<close>

text \<open>
  C5, as the spec words it: \<open>checkResourcePath\<close> resolves \<open>component\<close> to the
  template \<open>/project:{projectName}/application:{appName}/component:{compName}/\<close>.
  It does not: the function trims the leading and the trailing \<open>/\<close> before it
  returns. The template with the two slashes would not instantiate to the chain
  of the claim either, since its first token is empty and ends the chain at
  once.
\<close>

theorem C5_counterexample:
  "checkResourcePath existResourcePaths ''component''
     \<noteq> (''/project:{projectName}/application:{appName}/component:{compName}/'', None)
   \<and> String (resource (SetResourceWithName \<lparr>resource = nil, actions = []\<rparr>
        ''/project:{projectName}/application:{appName}/component:{compName}/''
        (\<lambda>name. if name = ''projectName'' then ''p1''
                 else if name = ''appName'' then ''a1''
                 else if name = ''compName'' then ''c1'' else [])))
       \<noteq> ''project:p1/application:a1/component:c1''"
  by code_simp

text \<open>
  C5, amended. In whatever order the index is ranged over, \<open>checkResourcePath\<close>
  resolves \<open>component\<close> to the template
  \<open>project:{projectName}/application:{appName}/component:{compName}\<close> with no
  error, and \<open>SetResourceWithName\<close> with a lookup that returns \<open>p1\<close>, \<open>a1\<close> and
  \<open>c1\<close> for the three names turns this template into a chain that renders as
  \<open>project:p1/application:a1/component:c1\<close>.
\<close>

theorem C5_component_template:
  assumes "set paths = set existResourcePaths"
    and "pathParameter ''projectName'' = ''p1''"
    and "pathParameter ''appName'' = ''a1''"
    and "pathParameter ''compName'' = ''c1''"
  shows "checkResourcePath paths ''component''
           = (''project:{projectName}/application:{appName}/component:{compName}'', None)
         \<and> String (resource (SetResourceWithName r
                (fst (checkResourcePath paths ''component'')) pathParameter))
           = ''project:p1/application:a1/component:c1''"
proof -
  let ?p = "''/project:{projectName}/application:{appName}/component:{compName}''"
  have "\<forall>e \<in> set paths. matchedPrefix ''component'' e = None
          \<or> matchedPrefix ''component'' e = Some ?p"
    using component_prefixes assms(1) by (simp add: list_all_iff)
  moreover have "\<exists>e \<in> set paths. matchedPrefix ''component'' e = Some ?p"
    using component_matched assms(1) by (simp add: list_ex_iff)
  ultimately have "scanPaths ''component'' ([], 0) paths = (?p, 1)"
    using scanPaths_first [of paths "''component''" ?p "[]" 0] by simp
  then have resolved: "checkResourcePath paths ''component''
      = (''project:{projectName}/application:{appName}/component:{compName}'', None)"
    by (simp add: checkResourcePath_def component_not_top_level component_trimmed)
  have "substitute pathParameter
          ''project:{projectName}/application:{appName}/component:{compName}''
          [''{projectName}'', ''{appName}'', ''{compName}'']
        = ''project:p1/application:a1/component:c1''"
    using assms(2-4) by (simp add: Replace1_def)
  then have "String (resource (SetResourceWithName r
      ''project:{projectName}/application:{appName}/component:{compName}'' pathParameter))
      = ''project:p1/application:a1/component:c1''"
    by (simp add: SetResourceWithName_def component_placeholders String_def TrimSuffix_def
        parse_simps)
  with resolved show ?thesis by simp
qed

theorem C5_component_template_witness:
  "set (rev existResourcePaths) = set existResourcePaths
   \<and> checkResourcePath (rev existResourcePaths) ''component''
       = (''project:{projectName}/application:{appName}/component:{compName}'', None)
   \<and> String (resource (SetResourceWithName \<lparr>resource = nil, actions = []\<rparr>
        (fst (checkResourcePath (rev existResourcePaths) ''component''))
        (\<lambda>name. if name = ''projectName'' then ''p1''
                 else if name = ''appName'' then ''a1''
                 else if name = ''compName'' then ''c1'' else [])))
       = ''project:p1/application:a1/component:c1''"
proof -
  have order: "set (rev existResourcePaths) = set existResourcePaths"
    by simp
  have "checkResourcePath (rev existResourcePaths) ''component''
       = (''project:{projectName}/application:{appName}/component:{compName}'', None)
   \<and> String (resource (SetResourceWithName \<lparr>resource = nil, actions = []\<rparr>
        (fst (checkResourcePath (rev existResourcePaths) ''component''))
        (\<lambda>name. if name = ''projectName'' then ''p1''
                 else if name = ''appName'' then ''a1''
                 else if name = ''compName'' then ''c1'' else [])))
       = ''project:p1/application:a1/component:c1''"
    by (rule C5_component_template [OF order]) simp_all
  with order show ?thesis
    by blast
qed

subsection \<open>The errors of the resolver\<close>

text \<open>
  C8. For a resource name that is not a top-level key of the schema, and in
  whatever order the index is ranged over: \<open>checkResourcePath\<close> returns the error
  "does not exist" when no entry of the index matches the name, the error "not
  unique" when the matching entries give more than one distinct prefix, and no
  error when they give exactly one. For the name \<open>widget\<close> and the registered
  schema the error is "there is no resource widget".
\<close>

theorem C8_error_contract:
  "(map_of ResourceMaps res = None \<longrightarrow>
      (matchingPrefixes res paths = []
         \<longrightarrow> checkResourcePath paths res = ([], Some (NoResource res)))
      \<and> (1 < length (remdups (matchingPrefixes res paths))
         \<longrightarrow> snd (checkResourcePath paths res) = Some (NotUnique res))
      \<and> (length (remdups (matchingPrefixes res paths)) = 1
         \<longrightarrow> snd (checkResourcePath paths res) = None))
   \<and> (set paths = set existResourcePaths
        \<longrightarrow> checkResourcePath paths ''widget'' = ([], Some (NoResource ''widget'')))"
proof -
  let ?P = "matchingPrefixes res paths"
  obtain path exist where scan: "scanPaths res ([], 0) paths = (path, exist)"
    by (cases "scanPaths res ([], 0) paths")
  have count: "card (set ?P) \<le> exist"
    using scanPaths_count [where n = 0 and res = res and path = "[]" and paths = paths] scan Nil_not_matching [of res paths] by simp
  have card: "card (set ?P) = length (remdups ?P)"
    by (simp add: length_remdups_card_conv)
  have zero: "checkResourcePath paths res = ([], Some (NoResource res))"
    if "map_of ResourceMaps res = None" "?P = []"
  proof -
    from that(2) have "scanPaths res ([], 0) paths = ([], 0)"
      by (simp add: matchingPrefixes_Nil scanPaths_none)
    with that(1) show ?thesis
      by (simp add: checkResourcePath_def TrimSuffix_def TrimPrefix_def)
  qed
  have many: "snd (checkResourcePath paths res) = Some (NotUnique res)"
    if "map_of ResourceMaps res = None" "1 < length (remdups ?P)"
  proof -
    from that(2) count card have "1 < exist" by simp
    with that(1) scan show ?thesis
      by (simp add: checkResourcePath_def Let_def)
  qed
  have one: "snd (checkResourcePath paths res) = None"
    if "map_of ResourceMaps res = None" "length (remdups ?P) = 1"
  proof -
    from that(2) card have "card (set ?P) = 1" by simp
    then obtain p where p: "set ?P = {p}"
      by (auto simp: card_1_singleton_iff)
    then have "p \<noteq> []"
      using Nil_not_matching [of res paths] by auto
    moreover have "\<forall>e \<in> set paths. matchedPrefix res e = None \<or> matchedPrefix res e = Some p"
    proof
      fix e assume e: "e \<in> set paths"
      show "matchedPrefix res e = None \<or> matchedPrefix res e = Some p"
      proof (cases "matchedPrefix res e")
        case None
        then show ?thesis by simp
      next
        case (Some q)
        with e have "q \<in> set ?P"
          unfolding set_matchingPrefixes by blast
        with p Some show ?thesis by simp
      qed
    qed
    moreover have "\<exists>e \<in> set paths. matchedPrefix res e = Some p"
      using p set_matchingPrefixes [of p res paths] by simp
    ultimately have "scanPaths res ([], 0) paths = (p, 1)"
      using scanPaths_first [of paths res p "[]" 0] by simp
    with that(1) show ?thesis
      by (simp add: checkResourcePath_def Let_def)
  qed
  have widget: "checkResourcePath paths ''widget'' = ([], Some (NoResource ''widget''))"
    if "set paths = set existResourcePaths"
  proof -
    have "\<forall>e \<in> set paths. matchedPrefix ''widget'' e = None"
      using widget_unmatched that by (simp add: list_all_iff)
    then have "scanPaths ''widget'' ([], 0) paths = ([], 0)"
      by (rule scanPaths_none)
    then show ?thesis
      by (simp add: checkResourcePath_def widget_not_top_level TrimSuffix_def TrimPrefix_def)
  qed
  from zero many one widget show ?thesis by blast
qed

text \<open>In the registered schema \<open>workflow\<close> stands under \<open>project\<close> and under
  \<open>application\<close>, \<open>widget\<close> nowhere, and \<open>component\<close> under \<open>application\<close>
  only.\<close>

theorem C8_error_contract_witness:
  "map_of ResourceMaps ''workflow'' = None
   \<and> 1 < length (remdups (matchingPrefixes ''workflow'' existResourcePaths))
   \<and> snd (checkResourcePath existResourcePaths ''workflow'') = Some (NotUnique ''workflow'')
   \<and> map_of ResourceMaps ''widget'' = None
   \<and> matchingPrefixes ''widget'' existResourcePaths = []
   \<and> checkResourcePath existResourcePaths ''widget'' = ([], Some (NoResource ''widget''))
   \<and> map_of ResourceMaps ''component'' = None
   \<and> length (remdups (matchingPrefixes ''component'' existResourcePaths)) = 1
   \<and> snd (checkResourcePath existResourcePaths ''component'') = None"
proof -
  have "snd (checkResourcePath existResourcePaths ''workflow'') = Some (NotUnique ''workflow'')"
    using C8_error_contract [of "''workflow''" existResourcePaths]
    by (simp add: workflow_not_top_level workflow_prefixes)
  moreover have "checkResourcePath existResourcePaths ''widget''
      = ([], Some (NoResource ''widget''))"
    using C8_error_contract [of "''widget''" existResourcePaths]
    by (simp add: widget_not_top_level widget_prefixes)
  moreover have "snd (checkResourcePath existResourcePaths ''component'') = None"
    using C8_error_contract [of "''component''" existResourcePaths]
    by (simp add: component_not_top_level component_prefix_list)
  ultimately show ?thesis
    by (simp add: workflow_not_top_level workflow_prefixes widget_not_top_level
        widget_prefixes component_not_top_level component_prefix_list)
qed

section \<open>The permissions of a user\<close>

lemma listPermPolices_fromStore:
  "listPermPolices p project names = Inr perms \<Longrightarrow> q \<in> set perms \<Longrightarrow> fromStore p q"
  by (auto simp: listPermPolices_def split: if_splits)

lemma platformPermissions_fromStore:
  "platformPermissions p user withPlatform = Inr (names, perms) \<Longrightarrow>
   q \<in> set perms \<Longrightarrow> fromStore p q"
  by (auto simp: platformPermissions_def Let_def split: if_splits sum.splits
      dest: listPermPolices_fromStore)

lemma projectPermissions_fromStore:
  assumes "projectPermissions p user projectName names perms = Inr perms'"
    and "\<forall>q \<in> set perms. fromStore p q"
    and "q \<in> set perms'"
  shows "fromStore p q"
  using assms
  by (auto simp: projectPermissions_def Let_def split: if_splits sum.splits
      dest: listPermPolices_fromStore)

text \<open>
  C9. Whatever the store, the user, the project name and the flag: a result of
  \<open>GetUserPermissions\<close> without error is not empty, its last element is the
  permission \<open>cloudshell\<close> with the resource \<open>cloudshell\<close>, the action \<open>*\<close> and
  the effect Allow, and every element before the last was returned by the store;
  so the permission is appended once, at the end.
\<close>

theorem C9_cloudshell_appended:
  assumes "GetUserPermissions p user projectName withPlatform = Inr perms"
  shows "perms \<noteq> [] \<and> last perms = cloudshellPermission
         \<and> (\<forall>q \<in> set (butlast perms). fromStore p q)"
proof -
  from assms obtain names platform stored where
    plat: "platformPermissions p user withPlatform = Inr (names, platform)"
    and proj: "projectPermissions p user projectName names platform = Inr stored"
    and perms: "perms = stored @ [cloudshellPermission]"
    by (auto simp: GetUserPermissions_def split: sum.splits prod.splits)
  have "\<forall>q \<in> set platform. fromStore p q"
    using platformPermissions_fromStore [OF plat] by blast
  then have "\<forall>q \<in> set stored. fromStore p q"
    using projectPermissions_fromStore [OF proj] by blast
  with perms show ?thesis by simp
qed

text \<open>A user with the platform role \<open>admin\<close>, and no project.\<close>

theorem C9_cloudshell_appended_witness:
  "GetUserPermissions
     (exampleStore [\<lparr>Name = ''admin'', Alias = ''Admin'', Project = [], Resources = [''*''],
        Actions = [''*''], Effect = ''Allow''\<rparr>])
     \<lparr>User_Name = ''alice'', User_UserRoles = [''admin'']\<rparr> [] True
   = Inr [\<lparr>Name = ''admin'', Alias = ''Admin'', Project = [], Resources = [''*''],
           Actions = [''*''], Effect = ''Allow''\<rparr>,
          \<lparr>Name = ''cloudshell'', Alias = [], Project = [], Resources = [''cloudshell''],
           Actions = [''*''], Effect = ''Allow''\<rparr>]
   \<and> last [\<lparr>Name = ''admin'', Alias = ''Admin'', Project = [], Resources = [''*''],
           Actions = [''*''], Effect = ''Allow''\<rparr>,
          \<lparr>Name = ''cloudshell'', Alias = [], Project = [], Resources = [''cloudshell''],
           Actions = [''*''], Effect = ''Allow''\<rparr>] = cloudshellPermission"
proof -
  let ?admin = "\<lparr>Name = ''admin'', Alias = ''Admin'', Project = [], Resources = [''*''],
    Actions = [''*''], Effect = ''Allow''\<rparr>"
  let ?cloudshell = "\<lparr>Name = ''cloudshell'', Alias = [], Project = [],
    Resources = [''cloudshell''], Actions = [''*''], Effect = ''Allow''\<rparr>"
  have result: "GetUserPermissions (exampleStore [?admin])
      \<lparr>User_Name = ''alice'', User_UserRoles = [''admin'']\<rparr> [] True
    = Inr [?admin, ?cloudshell]"
    by (simp add: GetUserPermissions_def platformPermissions_def projectPermissions_def
        listPermPolices_def exampleStore_def cloudshellPermission_def)
  have "last [?admin, ?cloudshell] = cloudshellPermission"
    using C9_cloudshell_appended [OF result] by blast
  with result show ?thesis
    by blast
qed

section \<open>The update of a stored default permission\<close>

text \<open>
  C7. \<open>SyncDefaultRoleAndUsersForProject\<close> should write a stored permission that
  bears the name of a default template exactly when its resources or its actions
  differ from the template's. The source writes it when the resources differ or
  the actions are equal. For the template \<open>app-management\<close> and a stored
  permission with the resources of the template: with the actions \<open>list\<close>, which
  differ from the template's, no \<open>Put\<close> is made; with the actions of the template
  a \<open>Put\<close> is made, although nothing differs.
\<close>

theorem C7_update_condition_at_failing_input:
  "Template_Resources (defaultProjectPermissionTemplate ! 1)
     = [''project:{projectName}/application:*/*'']
   \<and> Template_Actions (defaultProjectPermissionTemplate ! 1) = [''*'']
   \<and> filter isPut (fst (SyncDefaultRoleAndUsersForProject
        (exampleStore [\<lparr>Name = ''app-management'', Alias = ''App Management'',
           Project = ''p1'', Resources = [''project:{projectName}/application:*/*''],
           Actions = [''list''], Effect = ''Allow''\<rparr>])
        \<lparr>Project_Name = ''p1'', Project_Owner = ''alice''\<rparr>)) = []
   \<and> filter isPut (fst (SyncDefaultRoleAndUsersForProject
        (exampleStore [\<lparr>Name = ''app-management'', Alias = ''App Management'',
           Project = ''p1'', Resources = [''project:{projectName}/application:*/*''],
           Actions = [''*''], Effect = ''Allow''\<rparr>])
        \<lparr>Project_Name = ''p1'', Project_Owner = ''alice''\<rparr>))
     = [PutWrite \<lparr>Name = ''app-management'', Alias = ''App Management'', Project = ''p1'',
          Resources = [''project:p1/application:*/*:*''], Actions = [''*''],
          Effect = ''Allow''\<rparr>]"
  by code_simp

end
